theory Spec2Isabelle
  imports Main
begin

section \<open>The controller of the fm terminal file manager\<close>

text \<open>
  The development embeds \<^verbatim>\<open>update.go\<close>: the methods \<^verbatim>\<open>fixViewport\<close>, \<^verbatim>\<open>fixCursor\<close>
  and \<^verbatim>\<open>Update\<close> of the Bubble Tea model, together with \<^verbatim>\<open>createInitialModel\<close> and the
  start-up code of \<^verbatim>\<open>main\<close>. \<^verbatim>\<open>Update\<close> is a function from a message and a model to a
  model and a command; here it also threads the filesystem calls it makes, and a panic
  is one of its results.

  Go's \<^verbatim>\<open>int\<close> is modelled as \<^typ>\<open>int\<close>. The only arithmetic of the controller is
  \<^verbatim>\<open>Cursor--\<close>, \<^verbatim>\<open>Cursor++\<close>, \<^verbatim>\<open>len(Files) - 1\<close>, \<^verbatim>\<open>Height + YOffset - 1\<close> and
  \<^verbatim>\<open>msg.Height - 1\<close>; every statement below is about values within a few units of a
  slice length or of a terminal height, far from the 64-bit bounds.
\<close>

subsection \<open>Directory entries and the filesystem package\<close>

text \<open>The part of \<^verbatim>\<open>fs.FileInfo\<close> that the controller reads.\<close>

record FileInfo =
  Name :: string
  IsDir :: bool

text \<open>
  Modelled from the spec: the package \<^verbatim>\<open>filesystem\<close> of the repository is not among
  the sources. Section 6 of the specification describes it as the File Store
  collaborator whose operations the controller only calls. Each call the controller
  makes is recorded, in order, as an \<open>fs_call\<close>; what a directory listing returns is
  left to the environment (\<open>listing\<close> below), as a function of all calls made so far,
  the listing call itself being the last of them.
\<close>

datatype fs_call =
    GetDirectoryListing string
  | RenameDirOrFile string string
  | MoveDir string string
  | CopyFile string string bool
  | DeleteDirectory string
  | DeleteFile string

subsection \<open>Messages\<close>

text \<open>
  The messages are those of the Bubble Tea runtime (the library
  \<^verbatim>\<open>charmbracelet/bubbletea\<close>). A key message is known to \<^verbatim>\<open>Update\<close> through
  \<^verbatim>\<open>msg.String()\<close> only: the typed runes for a rune key (the space bar types a space),
  a fixed name for a named key. \<open>KeyOther\<close> stands for every key that is not listed on
  its own (function keys, arrows left and right, alt-modified keys), carrying its name.
\<close>

datatype tea_KeyMsg =
    KeyRunes string
  | KeyEnter
  | KeyBackspace
  | KeyEsc
  | KeyUp
  | KeyDown
  | KeyCtrlC
  | KeyOther string

fun KeyMsg_String :: "tea_KeyMsg \<Rightarrow> string" where
  "KeyMsg_String (KeyRunes rs) = rs"
| "KeyMsg_String KeyEnter = ''enter''"
| "KeyMsg_String KeyBackspace = ''backspace''"
| "KeyMsg_String KeyEsc = ''esc''"
| "KeyMsg_String KeyUp = ''up''"
| "KeyMsg_String KeyDown = ''down''"
| "KeyMsg_String KeyCtrlC = ''ctrl+c''"
| "KeyMsg_String (KeyOther name) = name"

text \<open>
  The messages \<^verbatim>\<open>Update\<close> switches on, \<open>MouseMsg\<close> for the mouse (wheel) events that the
  program enables, and \<open>OtherMsg\<close> for every other message type.
\<close>

datatype Msg =
    KeyMsg tea_KeyMsg
  | WindowSizeMsg int int
  | fileStatus "FileInfo list"
  | MouseMsg
  | OtherMsg

datatype Cmd = CmdNil | Quit | TextInputCmd | Batch "Cmd list"

subsection \<open>The viewport of the bubbles library\<close>

text \<open>
  \<^verbatim>\<open>viewport.Model\<close> belongs to the library \<^verbatim>\<open>charmbracelet/bubbles\<close>, not to the
  repository. The controller uses its fields \<^verbatim>\<open>Width\<close>, \<^verbatim>\<open>Height\<close>, \<^verbatim>\<open>YOffset\<close>,
  \<^verbatim>\<open>YPosition\<close> and its methods \<^verbatim>\<open>LineUp\<close>, \<^verbatim>\<open>LineDown\<close> and \<^verbatim>\<open>SetContent\<close>. They are
  written out here as the library has them: the content is split into lines, scrolling
  moves \<^verbatim>\<open>YOffset\<close> by at most the number of lines asked for, and not at all at the top
  or at the bottom of the content. What the statements below need of them is only that
  one call of \<^verbatim>\<open>LineUp(1)\<close> or \<^verbatim>\<open>LineDown(1)\<close> moves the offset by one line at most and
  leaves the height alone.
\<close>

record viewport_Model =
  Width :: int
  Height :: int
  YOffset :: int
  YPosition :: int
  lines :: "string list"

definition viewport_zero :: viewport_Model where
  "viewport_zero = \<lparr>Width = 0, Height = 0, YOffset = 0, YPosition = 0, lines = []\<rparr>"

fun normalize_newlines :: "string \<Rightarrow> string" where
  "normalize_newlines (c # d # s) =
     (if c = CHR 0x0D \<and> d = CHR 0x0A then CHR 0x0A # normalize_newlines s
      else c # normalize_newlines (d # s))"
| "normalize_newlines s = s"

fun split_newlines :: "string \<Rightarrow> string list" where
  "split_newlines [] = [[]]"
| "split_newlines (c # s) =
     (if c = CHR 0x0A then [] # split_newlines s
      else (case split_newlines s of
              [] \<Rightarrow> [[c]]
            | l # ls \<Rightarrow> (c # l) # ls))"

definition AtTop :: "viewport_Model \<Rightarrow> bool" where
  "AtTop vp = (YOffset vp \<le> 0)"

definition AtBottom :: "viewport_Model \<Rightarrow> bool" where
  "AtBottom vp = (YOffset vp \<ge> int (length (lines vp)) - 1 - Height vp)"

definition GotoBottom :: "viewport_Model \<Rightarrow> viewport_Model" where
  "GotoBottom vp = vp\<lparr>YOffset := max (int (length (lines vp)) - 1 - Height vp) 0\<rparr>"

definition SetContent :: "string \<Rightarrow> viewport_Model \<Rightarrow> viewport_Model" where
  "SetContent s vp =
     (let vp1 = vp\<lparr>lines := split_newlines (normalize_newlines s)\<rparr>
      in if YOffset vp1 > int (length (lines vp1)) - 1 then GotoBottom vp1 else vp1)"

definition LineDown :: "int \<Rightarrow> viewport_Model \<Rightarrow> viewport_Model" where
  "LineDown n vp =
     (if AtBottom vp \<or> n = 0 then vp
      else (let maxDelta = (int (length (lines vp)) - 1) - (YOffset vp + Height vp)
            in vp\<lparr>YOffset := YOffset vp + min n maxDelta\<rparr>))"

definition LineUp :: "int \<Rightarrow> viewport_Model \<Rightarrow> viewport_Model" where
  "LineUp n vp =
     (if AtTop vp \<or> n = 0 then vp
      else vp\<lparr>YOffset := YOffset vp - min n (YOffset vp)\<rparr>)"

subsection \<open>The text input of the bubbles library\<close>

text \<open>
  \<^verbatim>\<open>textinput.Model\<close> is the library's too. The controller sets \<^verbatim>\<open>Prompt\<close>,
  \<^verbatim>\<open>CharLimit\<close>, \<^verbatim>\<open>Width\<close> and \<^verbatim>\<open>Placeholder\<close>, calls \<^verbatim>\<open>Focus\<close>, \<^verbatim>\<open>Blur\<close>, \<^verbatim>\<open>Focused\<close> and
  \<^verbatim>\<open>Value\<close>, and hands every message to the input's own \<^verbatim>\<open>Update\<close>. The input holds
  its buffer (a slice of runes) and the position of its own cursor in it. In the
  library \<^verbatim>\<open>Focus\<close> and \<^verbatim>\<open>Blur\<close> set and remove the focus and leave buffer and cursor
  alone; the buffer is emptied by \<^verbatim>\<open>Reset\<close> and \<^verbatim>\<open>SetValue\<close> only, which the controller
  never calls.

  A character of the buffer, and of the runes of a key message, stands for one rune.
  The strings \<^verbatim>\<open>Update\<close> compares with are ASCII, where a rune is a byte; a rune outside
  ASCII equals none of them, in Go as here. \<^verbatim>\<open>Prompt\<close> and \<^verbatim>\<open>Placeholder\<close> are Go strings,
  written as their bytes; they are only displayed.
\<close>

record textinput_Model =
  Prompt :: string
  Placeholder :: string
  CharLimit :: int
  Width_input :: int
  value_buf :: string
  pos :: int
  focus :: bool

definition textinput_NewModel :: textinput_Model where
  "textinput_NewModel =
     \<lparr>Prompt = ''> '', Placeholder = '''', CharLimit = 0, Width_input = 0,
      value_buf = '''', pos = 0, focus = False\<rparr>"

definition Focused :: "textinput_Model \<Rightarrow> bool" where
  "Focused ti = focus ti"

definition Focus :: "textinput_Model \<Rightarrow> textinput_Model" where
  "Focus ti = ti\<lparr>focus := True\<rparr>"

definition Blur :: "textinput_Model \<Rightarrow> textinput_Model" where
  "Blur ti = ti\<lparr>focus := False\<rparr>"

definition Value :: "textinput_Model \<Rightarrow> string" where
  "Value ti = value_buf ti"

text \<open>
  What the controller takes from code that is not among the sources, as parameters:
  the result of directory listings; the two rendering functions \<^verbatim>\<open>components.Help\<close>
  and \<^verbatim>\<open>components.DirTree\<close>, whose text only ever becomes the content of the
  viewport; and the editing of the library's text input, that is, the buffer and the
  cursor position that the input's \<^verbatim>\<open>Update\<close> computes from a message while the input is
  focused (insertion of runes, deletion, cursor movement, paste).
\<close>

record deps =
  listing :: "fs_call list \<Rightarrow> FileInfo list"
  Help :: string
  DirTree :: "FileInfo list \<Rightarrow> int \<Rightarrow> int \<Rightarrow> string"
  editing :: "Msg \<Rightarrow> textinput_Model \<Rightarrow> string \<times> int"

text \<open>
  The input's \<^verbatim>\<open>Update\<close>. It returns at once while the input is not focused. Focused,
  it edits on key messages and on its own messages (among \<open>OtherMsg\<close>), has no case for
  the window size or the mouse, and changes nothing but buffer and cursor: the focus
  and the placeholder stay.
\<close>

definition textinput_Update :: "deps \<Rightarrow> Msg \<Rightarrow> textinput_Model \<Rightarrow> textinput_Model" where
  "textinput_Update env msg ti =
     (if \<not> focus ti then ti
      else (case msg of
              WindowSizeMsg w h \<Rightarrow> ti
            | fileStatus files \<Rightarrow> ti
            | MouseMsg \<Rightarrow> ti
            | _ \<Rightarrow> (case editing env msg ti of (v, p) \<Rightarrow> ti\<lparr>value_buf := v, pos := p\<rparr>)))"

subsection \<open>The model\<close>

text \<open>
  The fields \<^verbatim>\<open>Update\<close> reads and writes. The struct declaration and
  \<^verbatim>\<open>createInitialModel\<close> that come with the sources are of an earlier revision and lack
  \<^verbatim>\<open>ScreenHeight\<close>, \<^verbatim>\<open>Delete\<close> and \<^verbatim>\<open>ShowHelp\<close>; these start at Go's zero values.
\<close>

record model =
  Files :: "FileInfo list"
  Cursor :: int
  Viewport :: viewport_Model
  TextInput :: textinput_Model
  ViewportReady :: bool
  ScreenWidth :: int
  ScreenHeight :: int
  Move :: bool
  Rename :: bool
  Delete :: bool
  ShowHelp :: bool

text \<open>The program state: the model and the filesystem calls made so far.\<close>

type_synonym state = "model \<times> fs_call list"

definition createInitialModel :: model where
  "createInitialModel =
     \<lparr>Files = [], Cursor = 0, Viewport = viewport_zero,
      TextInput = textinput_NewModel
        \<lparr>Prompt := [CHR 0xE2, CHR 0x9D, CHR 0xAF, CHR 0x20], CharLimit := 250, Width_input := 50\<rparr>,
      ViewportReady = False, ScreenWidth = 0, ScreenHeight = 0,
      Move = False, Rename = False, Delete = False, ShowHelp = False\<rparr>"

text \<open>
  \<^verbatim>\<open>main\<close>: the listing of the start directory becomes \<^verbatim>\<open>Files\<close>, and the rendered
  tree the content of the viewport.
\<close>

definition main_model :: "deps \<Rightarrow> string \<Rightarrow> state" where
  "main_model env dir =
     (let calls = [GetDirectoryListing dir];
          m = createInitialModel\<lparr>Files := listing env calls\<rparr>
      in (m\<lparr>Viewport := SetContent (DirTree env (Files m) (Cursor m) (ScreenWidth m)) (Viewport m)\<rparr>,
          calls))"

subsection \<open>Cursor and viewport\<close>

definition fixViewport :: "bool \<Rightarrow> model \<Rightarrow> model" where
  "fixViewport moveCursor m =
     (let top = YOffset (Viewport m);
          bottom = Height (Viewport m) + YOffset (Viewport m) - 1
      in if moveCursor then
           (if Cursor m < top then m\<lparr>Cursor := top\<rparr>
            else if Cursor m > bottom then m\<lparr>Cursor := bottom\<rparr>
            else m)
         else if Cursor m < top then m\<lparr>Viewport := LineUp 1 (Viewport m)\<rparr>
         else if Cursor m > bottom then m\<lparr>Viewport := LineDown 1 (Viewport m)\<rparr>
         else m)"

definition fixCursor :: "model \<Rightarrow> model" where
  "fixCursor m =
     (if Cursor m > int (length (Files m)) - 1 then m\<lparr>Cursor := 0\<rparr>
      else if Cursor m < 0 then m\<lparr>Cursor := int (length (Files m)) - 1\<rparr>
      else m)"

subsection \<open>Update\<close>

text \<open>
  Indexing a slice panics out of range; the panic ends \<^verbatim>\<open>Update\<close> (and the program).
\<close>

datatype panic = IndexOutOfRange int nat

definition at_index :: "'a list \<Rightarrow> int \<Rightarrow> panic + 'a" where
  "at_index xs i =
     (if 0 \<le> i \<and> i < int (length xs) then Inr (xs ! nat i)
      else Inl (IndexOutOfRange i (length xs)))"

text \<open>
  A case of the switch either returns from \<^verbatim>\<open>Update\<close> at once (\<open>Return\<close>) or falls
  out of the switch (\<open>Next\<close>), to the update of the text input at the end.
\<close>

datatype flow = Return state Cmd | Next state

text \<open>The case \<^verbatim>\<open>"enter", " "\<close> of the key switch.\<close>

definition on_enter :: "deps \<Rightarrow> state \<Rightarrow> panic + flow" where
  "on_enter env s =
     (case s of (m, calls) \<Rightarrow>
      (case at_index (Files m) (Cursor m) of
         Inl p \<Rightarrow> Inl p
       | Inr f \<Rightarrow>
           Inr (if IsDir f \<and> \<not> Focused (TextInput m) then
                  (let calls1 = calls @ [GetDirectoryListing (Name f)]
                   in Next (m\<lparr>Files := listing env calls1, Cursor := 0\<rparr>, calls1))
                else if Rename m then
                  (let calls1 = calls @ [RenameDirOrFile (Name f) (Value (TextInput m)),
                                         GetDirectoryListing ''./'']
                   in Next (m\<lparr>Files := listing env calls1,
                               TextInput := Blur (TextInput m), Rename := False\<rparr>, calls1))
                else if Move m then
                  (if IsDir f then
                     (let calls1 = calls @ [MoveDir (Name f) (Value (TextInput m)),
                                            GetDirectoryListing ''./'']
                      in Next (m\<lparr>Files := listing env calls1,
                                  TextInput := Blur (TextInput m), Move := False\<rparr>, calls1))
                   else
                     (let calls1 = calls @ [CopyFile (Name f) (Value (TextInput m)) True,
                                            GetDirectoryListing ''./'']
                      in Next (m\<lparr>Files := listing env calls1,
                                  TextInput := Blur (TextInput m), Move := False\<rparr>, calls1)))
                else if Delete m then
                  (if IsDir f then
                     (if Value (TextInput m) = ''y'' then
                        (let calls1 = calls @ [DeleteDirectory (Name f),
                                               GetDirectoryListing ''./'']
                         in Next (m\<lparr>Files := listing env calls1,
                                     TextInput := Blur (TextInput m), Delete := False\<rparr>, calls1))
                      else
                        (let calls1 = calls @ [GetDirectoryListing ''./'']
                         in Next (m\<lparr>Files := listing env calls1,
                                     TextInput := Blur (TextInput m), Delete := False\<rparr>, calls1)))
                   else
                     (if Value (TextInput m) = ''y'' then
                        (let calls1 = calls @ [DeleteFile (Name f),
                                               GetDirectoryListing ''./'']
                         in Next (m\<lparr>Files := listing env calls1,
                                     TextInput := Blur (TextInput m), Delete := False\<rparr>, calls1))
                      else
                        (let calls1 = calls @ [GetDirectoryListing ''./'']
                         in Next (m\<lparr>Files := listing env calls1,
                                     TextInput := Blur (TextInput m), Delete := False\<rparr>, calls1))))
                else Return s CmdNil)))"

text \<open>The switch on \<^verbatim>\<open>msg.String()\<close>, case by case in the order of the source.\<close>

definition on_key :: "deps \<Rightarrow> tea_KeyMsg \<Rightarrow> state \<Rightarrow> panic + flow" where
  "on_key env key s =
     (case s of (m, calls) \<Rightarrow>
      (let k = KeyMsg_String key in
       if k = ''ctrl+c'' \<or> k = ''q'' then Inr (Return s Quit)
       else if k = ''up'' \<or> k = ''k'' then
         Inr (Next (if \<not> Focused (TextInput m)
                    then (fixViewport False (fixCursor (m\<lparr>Cursor := Cursor m - 1\<rparr>)), calls)
                    else s))
       else if k = ''down'' \<or> k = ''j'' then
         Inr (Next (if \<not> Focused (TextInput m)
                    then (fixViewport False (fixCursor (m\<lparr>Cursor := Cursor m + 1\<rparr>)), calls)
                    else s))
       else if k = ''enter'' \<or> k = '' '' then on_enter env s
       else if k = ''h'' \<or> k = ''backspace'' then
         Inr (Next (if \<not> Focused (TextInput m)
                    then (let calls1 = calls @ [GetDirectoryListing ''..'']
                          in (m\<lparr>Cursor := 0, Files := listing env calls1\<rparr>, calls1))
                    else s))
       else if k = ''m'' then
         Inr (Next (if \<not> Focused (TextInput m)
                    then (m\<lparr>Move := True,
                            TextInput := Focus ((TextInput m)\<lparr>Placeholder := ''/usr/share/''\<rparr>)\<rparr>,
                          calls)
                    else s))
       else if k = ''r'' then
         Inr (Next (if \<not> Focused (TextInput m)
                    then (m\<lparr>Rename := True,
                            TextInput := Focus ((TextInput m)\<lparr>Placeholder := ''newfilename.ex''\<rparr>)\<rparr>,
                          calls)
                    else s))
       else if k = ''d'' then
         Inr (Next (if \<not> Focused (TextInput m)
                    then (m\<lparr>Delete := True,
                            TextInput := Focus ((TextInput m)\<lparr>Placeholder := ''[y/n]''\<rparr>)\<rparr>,
                          calls)
                    else s))
       else if k = ''i'' then
         Inr (Next (m\<lparr>Viewport := SetContent (Help env) (Viewport m), ShowHelp := True\<rparr>, calls))
       else if k = ''esc'' then
         Inr (Next (m\<lparr>Move := False, Rename := False, Delete := False, ShowHelp := False,
                       TextInput := Blur (TextInput m)\<rparr>, calls))
       else Inr (Next s)))"

text \<open>
  \<^verbatim>\<open>Update\<close>: the quit keys first, then the switch on the type of the message, then
  the text input's own update with the same message.
\<close>

definition is_quit :: "Msg \<Rightarrow> bool" where
  "is_quit msg =
     (case msg of
        KeyMsg key \<Rightarrow> KeyMsg_String key = ''q'' \<or> KeyMsg_String key = ''ctrl+c''
      | _ \<Rightarrow> False)"

definition on_msg :: "deps \<Rightarrow> Msg \<Rightarrow> state \<Rightarrow> panic + flow" where
  "on_msg env msg s =
     (case s of (m, calls) \<Rightarrow>
      (case msg of
         fileStatus files \<Rightarrow> Inr (Return (m\<lparr>Files := files\<rparr>, calls) CmdNil)
       | WindowSizeMsg w h \<Rightarrow>
           Inr (Next (m\<lparr>ScreenWidth := w, ScreenHeight := h,
                         Viewport := viewport_zero\<lparr>Width := w, Height := h - 1, YPosition := 0\<rparr>\<rparr>,
                      calls))
       | KeyMsg key \<Rightarrow> on_key env key s
       | _ \<Rightarrow> Inr (Next s)))"

definition Update :: "deps \<Rightarrow> Msg \<Rightarrow> state \<Rightarrow> panic + (state \<times> Cmd)" where
  "Update env msg s =
     (if is_quit msg then Inr (s, Quit)
      else (case on_msg env msg s of
              Inl p \<Rightarrow> Inl p
            | Inr (Return s1 cmd) \<Rightarrow> Inr (s1, cmd)
            | Inr (Next (m1, calls1)) \<Rightarrow>
                Inr ((m1\<lparr>TextInput := textinput_Update env msg (TextInput m1)\<rparr>, calls1),
                     Batch [TextInputCmd])))"

text \<open>
  The event loop of the runtime: messages are handled one at a time, each by \<^verbatim>\<open>Update\<close>
  on the model the previous one returned. A panic ends the run. The \<^verbatim>\<open>Quit\<close> command
  ends the program when the runtime comes to it; \<^verbatim>\<open>Update\<close> returns it with the model
  unchanged, so that a run which goes on past it reaches no state that a run without the
  quit key does not reach.
\<close>

fun run :: "deps \<Rightarrow> Msg list \<Rightarrow> state \<Rightarrow> panic + state" where
  "run env [] s = Inr s"
| "run env (msg # msgs) s =
     (case Update env msg s of
        Inl p \<Rightarrow> Inl p
      | Inr (s1, cmd) \<Rightarrow> run env msgs s1)"

subsection \<open>Reading results, modes and invariants\<close>

definition is_up :: "tea_KeyMsg \<Rightarrow> bool" where
  "is_up key = (KeyMsg_String key = ''up'' \<or> KeyMsg_String key = ''k'')"

definition is_down :: "tea_KeyMsg \<Rightarrow> bool" where
  "is_down key = (KeyMsg_String key = ''down'' \<or> KeyMsg_String key = ''j'')"

definition is_commit :: "tea_KeyMsg \<Rightarrow> bool" where
  "is_commit key = (KeyMsg_String key = ''enter'' \<or> KeyMsg_String key = '' '')"


text \<open>The model that \<^verbatim>\<open>Update\<close> returns, the cursor in it, and the model a run ends in.\<close>

definition model_after :: "panic + (state \<times> Cmd) \<Rightarrow> model option" where
  "model_after r = (case r of Inl p \<Rightarrow> None | Inr ((m, calls), cmd) \<Rightarrow> Some m)"

definition cursor_after :: "panic + (state \<times> Cmd) \<Rightarrow> int option" where
  "cursor_after r = (case r of Inl p \<Rightarrow> None | Inr ((m, calls), cmd) \<Rightarrow> Some (Cursor m))"

definition model_at_end :: "panic + state \<Rightarrow> model option" where
  "model_at_end r = (case r of Inl p \<Rightarrow> None | Inr (m, calls) \<Rightarrow> Some m)"

text \<open>
  The two invariants of the specification's data model: the cursor indexes an entry of
  the listing, and it lies in the visible band of the viewport.
\<close>

definition cursor_in_range :: "model \<Rightarrow> bool" where
  "cursor_in_range m = (0 \<le> Cursor m \<and> Cursor m < int (length (Files m)))"

definition in_band :: "model \<Rightarrow> bool" where
  "in_band m =
     (YOffset (Viewport m) \<le> Cursor m \<and>
      Cursor m \<le> YOffset (Viewport m) + Height (Viewport m) - 1)"

text \<open>
  The specification's modes, read off the four flags of the model. The order of the
  prompt flags is the order in which the enter case tests them.
\<close>

datatype Mode = Browse | RenamePrompt | MovePrompt | DeleteConfirm | HelpMode

definition mode_of :: "model \<Rightarrow> Mode" where
  "mode_of m =
     (if Rename m then RenamePrompt
      else if Move m then MovePrompt
      else if Delete m then DeleteConfirm
      else if ShowHelp m then HelpMode
      else Browse)"

text \<open>
  The number of prompt flags that are set, and the invariant of the prompt modes: at
  most one flag is set, and none while the text input is not focused.
\<close>

definition prompt_flags :: "model \<Rightarrow> nat" where
  "prompt_flags m = length (filter id [Move m, Rename m, Delete m])"

definition prompt_inv :: "model \<Rightarrow> bool" where
  "prompt_inv m = (prompt_flags m \<le> (if Focused (TextInput m) then 1 else 0))"

text \<open>A property of the model in every outcome of the switch that is not a panic.\<close>

definition flow_holds :: "(model \<Rightarrow> bool) \<Rightarrow> panic + flow \<Rightarrow> bool" where
  "flow_holds P r =
     (case r of
        Inl p \<Rightarrow> True
      | Inr (Return s1 cmd) \<Rightarrow> P (fst s1)
      | Inr (Next s1) \<Rightarrow> P (fst s1))"

subsection \<open>Concrete data for the examples\<close>

definition a_file :: "string \<Rightarrow> FileInfo" where
  "a_file n = \<lparr>Name = n, IsDir = False\<rparr>"

definition a_dir :: "string \<Rightarrow> FileInfo" where
  "a_dir n = \<lparr>Name = n, IsDir = True\<rparr>"

text \<open>
  An editor for the examples. It follows the library on typed runes (inserted at the
  cursor while the buffer is below \<^verbatim>\<open>CharLimit\<close>), on backspace (the rune before the
  cursor) and on the cursor keys left, right, home and end. The examples press no other
  editing key, and no theorem that is stated for every environment depends on it.
\<close>

definition typing :: "Msg \<Rightarrow> textinput_Model \<Rightarrow> string \<times> int" where
  "typing msg ti =
     (let v = value_buf ti; p = pos ti in
      case msg of
        KeyMsg (KeyRunes rs) \<Rightarrow>
          (if CharLimit ti \<le> 0 \<or> int (length v) < CharLimit ti
           then (take (nat p) v @ rs @ drop (nat p) v, p + int (length rs))
           else (v, p))
      | KeyMsg KeyBackspace \<Rightarrow>
          (if v \<noteq> []
           then (take (nat (max 0 (p - 1))) v @ drop (nat p) v, if p > 0 then p - 1 else p)
           else (v, p))
      | KeyMsg (KeyOther name) \<Rightarrow>
          (if name = ''left'' then (v, if p > 0 then p - 1 else p)
           else if name = ''right'' then (v, if p < int (length v) then p + 1 else p)
           else if name = ''home'' then (v, 0)
           else if name = ''end'' then (v, int (length v))
           else (v, p))
      | _ \<Rightarrow> (v, p))"

text \<open>An environment in which every listing returns the given entries.\<close>

definition env_of :: "FileInfo list \<Rightarrow> deps" where
  "env_of fs =
     \<lparr>listing = (\<lambda>calls. fs), Help = ''keys'',
      DirTree = (\<lambda>files c w. concat (map (\<lambda>f. Name f @ [CHR 0x0A]) files)),
      editing = typing\<rparr>"

text \<open>The listing of the scenario in section 8 of the specification.\<close>

definition abc :: "FileInfo list" where
  "abc = [a_file ''a.txt'', a_dir ''b'', a_file ''c.txt'']"

text \<open>A longer listing, of five files.\<close>

definition abcde :: "FileInfo list" where
  "abcde = [a_file ''a'', a_file ''b'', a_file ''c'', a_file ''d'', a_file ''e'']"

text \<open>
  Two models over that listing: one as the program starts, and one in the rename
  prompt, with \<^verbatim>\<open>rx\<close> typed.
\<close>

definition browsing :: model where
  "browsing = createInitialModel\<lparr>Files := abc\<rparr>"


section \<open>Basic facts\<close>


lemma Cursor_fixViewport_False: "Cursor (fixViewport False m) = Cursor m"
  by (simp add: fixViewport_def Let_def)

lemma Update_up:
  assumes "is_up key" "\<not> Focused (TextInput m)"
  shows "Update env (KeyMsg key) (m, calls) =
     Inr ((let m1 = fixViewport False (fixCursor (m\<lparr>Cursor := Cursor m - 1\<rparr>))
           in m1\<lparr>TextInput := textinput_Update env (KeyMsg key) (TextInput m1)\<rparr>, calls),
          Batch [TextInputCmd])"
  using assms
  by (auto simp: Update_def is_quit_def on_msg_def on_key_def is_up_def Let_def)

lemma Update_down:
  assumes "is_down key" "\<not> Focused (TextInput m)"
  shows "Update env (KeyMsg key) (m, calls) =
     Inr ((let m1 = fixViewport False (fixCursor (m\<lparr>Cursor := Cursor m + 1\<rparr>))
           in m1\<lparr>TextInput := textinput_Update env (KeyMsg key) (TextInput m1)\<rparr>, calls),
          Batch [TextInputCmd])"
  using assms
  by (auto simp: Update_def is_quit_def on_msg_def on_key_def is_down_def Let_def)

lemma model_at_end_Some:
  "model_at_end r = Some m \<Longrightarrow> \<exists>calls. r = Inr (m, calls)"
  by (auto simp: model_at_end_def split: sum.splits)

lemma model_after_Some:
  "model_after r = Some m \<Longrightarrow> \<exists>calls cmd. r = Inr ((m, calls), cmd)"
  by (auto simp: model_after_def split: sum.splits)

subsection \<open>The library's text input\<close>

lemma Focused_textinput_Update [simp]:
  "Focused (textinput_Update env msg ti) = Focused ti"
  by (auto simp: textinput_Update_def Focused_def split: Msg.splits prod.splits)

lemma Placeholder_textinput_Update [simp]:
  "Placeholder (textinput_Update env msg ti) = Placeholder ti"
  by (auto simp: textinput_Update_def split: Msg.splits prod.splits)

lemma textinput_Update_unfocused [simp]:
  "\<not> Focused ti \<Longrightarrow> textinput_Update env msg ti = ti"
  by (simp add: textinput_Update_def Focused_def)

lemma textinput_Update_Blur [simp]: "textinput_Update env msg (Blur ti) = Blur ti"
  by (simp add: textinput_Update_def Blur_def)

lemma Focused_simps [simp]:
  "Focused (Focus ti)" "\<not> Focused (Blur ti)"
  "Focused (ti\<lparr>Placeholder := p\<rparr>) = Focused ti"
  by (simp_all add: Focused_def Focus_def Blur_def)

lemma Value_simps [simp]:
  "Value (Focus ti) = Value ti" "Value (Blur ti) = Value ti"
  "Value (ti\<lparr>Placeholder := p\<rparr>) = Value ti"
  by (simp_all add: Value_def Focus_def Blur_def)

subsection \<open>What fixViewport and fixCursor leave alone\<close>

lemma fixViewport_fields [simp]:
  "Move (fixViewport b m) = Move m" "Rename (fixViewport b m) = Rename m"
  "Delete (fixViewport b m) = Delete m" "TextInput (fixViewport b m) = TextInput m"
  "ShowHelp (fixViewport b m) = ShowHelp m" "Files (fixViewport b m) = Files m"
  by (simp_all add: fixViewport_def Let_def)

lemma fixCursor_fields [simp]:
  "Move (fixCursor m) = Move m" "Rename (fixCursor m) = Rename m"
  "Delete (fixCursor m) = Delete m" "TextInput (fixCursor m) = TextInput m"
  "ShowHelp (fixCursor m) = ShowHelp m" "Files (fixCursor m) = Files m"
  "Viewport (fixCursor m) = Viewport m"
  by (simp_all add: fixCursor_def)

text \<open>
  With a non-empty listing \<^verbatim>\<open>fixCursor\<close> always leaves the cursor on an entry, wherever
  it was; so does every up or down key while the input is not focused.
\<close>

lemma fixCursor_in_range:
  "Files m \<noteq> [] \<Longrightarrow> cursor_in_range (fixCursor m)"
  by (auto simp: fixCursor_def cursor_in_range_def)

lemma navigation_keeps_cursor_in_range:
  assumes "Files m \<noteq> []" and "\<not> Focused (TextInput m)" and "is_up key \<or> is_down key"
  shows "\<exists>m1. model_after (Update env (KeyMsg key) (m, calls)) = Some m1 \<and>
              Files m1 = Files m \<and> cursor_in_range m1"
proof -
  have "cursor_in_range (fixCursor (m\<lparr>Cursor := c\<rparr>))" for c
    using assms(1) fixCursor_in_range [of "m\<lparr>Cursor := c\<rparr>"] by simp
  then have "cursor_in_range (fixViewport False (fixCursor (m\<lparr>Cursor := c\<rparr>))
                \<lparr>TextInput := ti\<rparr>)" for c ti
    by (simp add: cursor_in_range_def Cursor_fixViewport_False)
  with assms(2,3) show ?thesis
    by (auto simp: Update_up Update_down model_after_def Let_def)
qed

subsection \<open>Scrolling by one line\<close>

lemma LineDown_moves_at_most:
  "Height (LineDown 1 vp) = Height vp \<and> YOffset (LineDown 1 vp) \<le> YOffset vp + 1"
  by (simp add: LineDown_def Let_def)

lemma LineUp_moves_at_most:
  "Height (LineUp 1 vp) = Height vp \<and> YOffset vp - 1 \<le> YOffset (LineUp 1 vp) \<and>
   YOffset (LineUp 1 vp) \<le> YOffset vp"
  by (simp add: LineUp_def AtTop_def)

text \<open>
  Up from the first entry, with the viewport at the top and a listing more than one
  entry longer than the viewport is high: the cursor wraps to the last entry, and the
  viewport, which follows by one line at most, does not show it.
\<close>

lemma wrap_up_leaves_band:
  assumes "\<not> Focused (TextInput m)" and "is_up key" and "Cursor m = 0"
    and "YOffset (Viewport m) = 0"
    and "Height (Viewport m) + 1 < int (length (Files m))"
  shows "\<exists>m1. model_after (Update env (KeyMsg key) (m, calls)) = Some m1 \<and>
              Cursor m1 = int (length (Files m)) - 1 \<and> \<not> in_band m1"
proof -
  let ?m0 = "fixCursor (m\<lparr>Cursor := Cursor m - 1\<rparr>)"
  let ?m1 = "fixViewport False ?m0"
  have c0: "Cursor ?m0 = int (length (Files m)) - 1"
    using assms(3) by (simp add: fixCursor_def)
  have vp: "Viewport ?m0 = Viewport m" by simp
  have c1: "Cursor ?m1 = int (length (Files m)) - 1"
    using c0 by (simp add: Cursor_fixViewport_False)
  have "Height (Viewport ?m1) = Height (Viewport m) \<and> YOffset (Viewport ?m1) \<le> 1"
    using assms(4) LineDown_moves_at_most [of "Viewport m"] LineUp_moves_at_most [of "Viewport m"]
    by (simp add: fixViewport_def Let_def)
  with c1 assms(5) have "\<not> in_band ?m1"
    by (simp add: in_band_def)
  then have "\<not> in_band (?m1\<lparr>TextInput := ti\<rparr>)" for ti
    by (simp add: in_band_def)
  with c1 show ?thesis
    by (simp add: Update_up [OF assms(2,1)] model_after_def Let_def)
qed

subsection \<open>From the switch to Update\<close>

text \<open>What holds of every outcome of the switch holds of the model \<^verbatim>\<open>Update\<close> returns.\<close>

lemma Update_holds:
  assumes fl: "flow_holds P (on_msg env msg (m, calls))"
    and quit: "is_quit msg \<Longrightarrow> P m"
    and ti: "\<And>m2. P m2 \<Longrightarrow> P (m2\<lparr>TextInput := textinput_Update env msg (TextInput m2)\<rparr>)"
    and upd: "Update env msg (m, calls) = Inr ((m1, calls1), cmd)"
  shows "P m1"
proof (cases "is_quit msg")
  case True
  with upd quit show ?thesis by (simp add: Update_def)
next
  case False
  show ?thesis
  proof (cases "on_msg env msg (m, calls)")
    case (Inl p)
    with upd False show ?thesis by (simp add: Update_def)
  next
    case (Inr f)
    show ?thesis
    proof (cases f)
      case (Return s2 c2)
      with Inr upd False fl show ?thesis
        by (auto simp: Update_def flow_holds_def)
    next
      case (Next s2)
      obtain m2 k2 where s2: "s2 = (m2, k2)" by (cases s2)
      from Inr Next s2 fl have "P m2" by (simp add: flow_holds_def)
      moreover from Inr Next s2 upd False
      have "m1 = m2\<lparr>TextInput := textinput_Update env msg (TextInput m2)\<rparr>"
        by (simp add: Update_def)
      ultimately show ?thesis using ti by simp
    qed
  qed
qed

subsection \<open>The invariant of the prompt modes\<close>

lemma prompt_inv_iff:
  "prompt_inv m =
     (if Focused (TextInput m)
      then \<not> (Move m \<and> Rename m) \<and> \<not> (Move m \<and> Delete m) \<and> \<not> (Rename m \<and> Delete m)
      else \<not> Move m \<and> \<not> Rename m \<and> \<not> Delete m)"
  by (cases "Move m"; cases "Rename m"; cases "Delete m")
     (simp_all add: prompt_inv_def prompt_flags_def)


lemma on_enter_inv:
  assumes "prompt_inv m"
  shows "flow_holds prompt_inv (on_enter env (m, calls))"
proof (cases "at_index (Files m) (Cursor m)")
  case (Inl p)
  then show ?thesis by (simp add: on_enter_def flow_holds_def)
next
  case (Inr f)
  show ?thesis
  proof (cases "Focused (TextInput m)")
    case True
    with assms Inr show ?thesis
      by (simp add: on_enter_def flow_holds_def prompt_inv_iff Let_def)
  next
    case False
    with assms Inr show ?thesis
      by (simp add: on_enter_def flow_holds_def prompt_inv_iff Let_def)
  qed
qed

lemma on_key_inv:
  assumes "prompt_inv m"
  shows "flow_holds prompt_inv (on_key env key (m, calls))"
proof (cases "KeyMsg_String key = ''enter'' \<or> KeyMsg_String key = '' ''")
  case True
  then show ?thesis
    using on_enter_inv [OF assms, of env calls]
    by (auto simp: on_key_def Let_def)
next
  case False
  show ?thesis
  proof (cases "Focused (TextInput m)")
    case True
    with assms False show ?thesis
      by (simp add: on_key_def flow_holds_def prompt_inv_iff Let_def)
  next
    case nf: False
    with assms False show ?thesis
      by (simp add: on_key_def flow_holds_def prompt_inv_iff Let_def)
  qed
qed

lemma on_msg_inv:
  assumes "prompt_inv m"
  shows "flow_holds prompt_inv (on_msg env msg (m, calls))"
proof (cases msg)
  case (KeyMsg key)
  then show ?thesis using on_key_inv [OF assms] by (simp add: on_msg_def)
qed (use assms in \<open>simp_all add: on_msg_def flow_holds_def prompt_inv_iff\<close>)

lemma Update_inv:
  assumes "prompt_inv m" and "Update env msg (m, calls) = Inr ((m1, calls1), cmd)"
  shows "prompt_inv m1"
proof (rule Update_holds [where P = prompt_inv, OF on_msg_inv [OF assms(1)] _ _ assms(2)])
  show "prompt_inv m" by (rule assms(1))
next
  fix m2 assume "prompt_inv m2"
  then show "prompt_inv (m2\<lparr>TextInput := textinput_Update env msg (TextInput m2)\<rparr>)"
    by (simp add: prompt_inv_iff)
qed

lemma run_inv:
  "prompt_inv (fst s) \<Longrightarrow> run env msgs s = Inr s1 \<Longrightarrow> prompt_inv (fst s1)"
proof (induction msgs arbitrary: s)
  case Nil
  then show ?case by simp
next
  case (Cons msg msgs)
  obtain m calls where s: "s = (m, calls)" by (cases s)
  show ?case
  proof (cases "Update env msg s")
    case (Inl p)
    with Cons.prems show ?thesis by simp
  next
    case (Inr r)
    obtain m2 calls2 cmd where r: "r = ((m2, calls2), cmd)" by (cases r) auto
    from Cons.prems(1) Inr s r have inv2: "prompt_inv m2"
      using Update_inv by auto
    from Cons.prems(2) Inr r have "run env msgs (m2, calls2) = Inr s1" by simp
    with Cons.IH [of "(m2, calls2)"] inv2 show ?thesis by simp
  qed
qed

lemma main_model_inv: "prompt_inv (fst (main_model env d))"
  by (simp add: main_model_def Let_def prompt_inv_iff createInitialModel_def
        textinput_NewModel_def Focused_def)

subsection \<open>Entering, cancelling and committing a prompt\<close>


lemma cancel_prompt:
  assumes "KeyMsg_String key = ''esc''"
  shows "Update env (KeyMsg key) (m, calls) =
     Inr ((m\<lparr>Move := False, Rename := False, Delete := False, ShowHelp := False,
              TextInput := Blur (TextInput m)\<rparr>, calls), Batch [TextInputCmd])"
  using assms
  by (simp add: Update_def is_quit_def on_msg_def on_key_def Let_def)


subsection \<open>The help flag\<close>

lemma on_enter_ShowHelp:
  "ShowHelp m \<Longrightarrow> flow_holds ShowHelp (on_enter env (m, calls))"
  by (cases "at_index (Files m) (Cursor m)")
     (simp_all add: on_enter_def flow_holds_def Let_def)

lemma on_key_ShowHelp:
  assumes "ShowHelp m" and "KeyMsg_String key \<noteq> ''esc''"
  shows "flow_holds ShowHelp (on_key env key (m, calls))"
proof (cases "KeyMsg_String key = ''enter'' \<or> KeyMsg_String key = '' ''")
  case True
  then show ?thesis
    using on_enter_ShowHelp [OF assms(1), of env calls]
    by (auto simp: on_key_def Let_def)
next
  case False
  with assms show ?thesis
    by (simp add: on_key_def flow_holds_def Let_def)
qed

subsection \<open>The editor of the examples\<close>

text \<open>
  Typed runes go in at the input's cursor, which blurring and focusing do not move:
  after \<^verbatim>\<open>r\<close>, \<^verbatim>\<open>x\<close>, home and escape, the delete key enters its prompt with \<^verbatim>\<open>drx\<close> in
  the buffer; without the home key it is \<^verbatim>\<open>rxd\<close>.
\<close>

lemma typing_at_the_cursor:
  "map_option (\<lambda>m. (mode_of m, Value (TextInput m)))
     (model_at_end (run (env_of abc)
                      [KeyMsg (KeyRunes ''r''), KeyMsg (KeyRunes ''x''), KeyMsg (KeyOther ''home''),
                       KeyMsg KeyEsc, KeyMsg (KeyRunes ''d'')]
                      (main_model (env_of abc) ''.'')))
   = Some (DeleteConfirm, ''drx'') \<and>
   map_option (\<lambda>m. (mode_of m, Value (TextInput m)))
     (model_at_end (run (env_of abc)
                      [KeyMsg (KeyRunes ''r''), KeyMsg (KeyRunes ''x''),
                       KeyMsg KeyEsc, KeyMsg (KeyRunes ''d'')]
                      (main_model (env_of abc) ''.'')))
   = Some (DeleteConfirm, ''rxd'')"
  by code_simp

subsection \<open>Keys while the text input is focused\<close>

text \<open>
  While the text input is focused, the up and down keys and the mouse events do not
  change the cursor, and every key other than the quit keys, the commit keys, the
  cancel key and the help key changes nothing but the text input, to whose \<^verbatim>\<open>Update\<close>
  it is handed, and makes no filesystem call.
\<close>

lemma focused_keys_go_to_the_text_input:
  assumes "Focused (TextInput m)"
  shows
    "(is_up key \<or> is_down key \<longrightarrow>
        cursor_after (Update env (KeyMsg key) (m, calls)) = Some (Cursor m)) \<and>
     cursor_after (Update env MouseMsg (m, calls)) = Some (Cursor m) \<and>
     (KeyMsg_String key \<notin> {''q'', ''ctrl+c'', ''enter'', '' '', ''esc'', ''i''} \<longrightarrow>
        Update env (KeyMsg key) (m, calls) =
          Inr ((m\<lparr>TextInput := textinput_Update env (KeyMsg key) (TextInput m)\<rparr>, calls),
               Batch [TextInputCmd]))"
  using assms
  by (auto simp: Update_def is_quit_def on_msg_def on_key_def Let_def cursor_after_def
        is_up_def is_down_def)

subsection \<open>The commit of a delete confirmation\<close>

text \<open>
  In delete-confirm mode the enter case first indexes the listing. When that does not
  panic, the only filesystem calls are the deletion of the selected entry, made when
  and only when the buffer is exactly \<^verbatim>\<open>y\<close>, and the listing of \<^verbatim>\<open>./\<close> that follows
  in every case.
\<close>

lemma delete_confirm_commit:
  assumes "Delete m" "\<not> Rename m" "\<not> Move m" "Focused (TextInput m)" "is_commit key"
  shows "Update env (KeyMsg key) (m, calls) =
     (case at_index (Files m) (Cursor m) of
        Inl p \<Rightarrow> Inl p
      | Inr f \<Rightarrow>
          (let calls1 = calls @ (if Value (TextInput m) = ''y''
                                 then [if IsDir f then DeleteDirectory (Name f) else DeleteFile (Name f)]
                                 else []) @ [GetDirectoryListing ''./'']
           in Inr ((m\<lparr>Files := listing env calls1, TextInput := Blur (TextInput m),
                      Delete := False\<rparr>, calls1), Batch [TextInputCmd])))"
  using assms
  by (auto simp: Update_def is_quit_def on_msg_def on_key_def on_enter_def is_commit_def Let_def
           split: sum.splits)

section \<open>The claims\<close>

text \<open>
  Claim C1. For every model with a non-empty listing, after any sequence of up/down
  navigation key events the cursor satisfies \<^verbatim>\<open>0 <= cursor < len(listing)\<close> and lies in
  the visible band \<^verbatim>\<open>offset <= cursor <= offset+height-1\<close>.

  The first half holds (\<open>navigation_keeps_cursor_in_range\<close> above). The second does not:
  \<^verbatim>\<open>fixViewport\<close> scrolls by one line, and a wrap-around moves the cursor by the length
  of the listing (\<open>wrap_up_leaves_band\<close> above). The program is started on a directory
  of five entries and the terminal reports 80 columns and 3 rows, so that the viewport
  shows 2 rows; the cursor is at 0, on an entry and in the band. One up key puts the
  cursor at 4, on an entry, with the viewport still showing rows 0 and 1. Where the
  viewport has the rendered listing as its content, so that it can scroll, the same key
  scrolls it by one line to rows 1 and 2.
\<close>

theorem wrap_around_leaves_the_visible_band:
  "map_option (\<lambda>m. (length (Files m), Cursor m, YOffset (Viewport m), Height (Viewport m),
                     cursor_in_range m, in_band m))
     (model_at_end (run (env_of abcde) [WindowSizeMsg 80 3] (main_model (env_of abcde) ''.'')))
   = Some (5, 0, 0, 2, True, True) \<and>
   map_option (\<lambda>m. (length (Files m), Cursor m, YOffset (Viewport m), Height (Viewport m),
                     cursor_in_range m, in_band m))
     (model_at_end (run (env_of abcde) [WindowSizeMsg 80 3, KeyMsg KeyUp]
                      (main_model (env_of abcde) ''.'')))
   = Some (5, 4, 0, 2, True, False) \<and>
   map_option (\<lambda>m. (length (Files m), Cursor m, YOffset (Viewport m), Height (Viewport m),
                     cursor_in_range m, in_band m))
     (model_after (Update (env_of abcde) (KeyMsg KeyUp)
        (createInitialModel\<lparr>Files := abcde,
           Viewport := SetContent (DirTree (env_of abcde) abcde 0 80)
                         (viewport_zero\<lparr>Width := 80, Height := 2\<rparr>)\<rparr>, [])))
   = Some (5, 4, 1, 2, True, False)"
  by code_simp

text \<open>
  Claim C2. Up/down navigation is circular. Navigation is what the up and down keys do
  while the text input is not focused (focused, the keys go to the prompt). For every
  model with a non-empty listing and an unfocused input, the up key (\<^verbatim>\<open>up\<close> or
  \<^verbatim>\<open>k\<close>) with the cursor at index 0 leaves the cursor at \<^verbatim>\<open>len(Files) - 1\<close>, and the down
  key (\<^verbatim>\<open>down\<close> or \<^verbatim>\<open>j\<close>) with the cursor at the last index leaves it at 0. \<^verbatim>\<open>Update\<close>
  does not panic on either.
\<close>

theorem navigation_is_circular:
  assumes "Files m \<noteq> []" and "\<not> Focused (TextInput m)"
  shows "(is_up key \<and> Cursor m = 0 \<longrightarrow>
            cursor_after (Update env (KeyMsg key) (m, calls)) = Some (int (length (Files m)) - 1)) \<and>
         (is_down key \<and> Cursor m = int (length (Files m)) - 1 \<longrightarrow>
            cursor_after (Update env (KeyMsg key) (m, calls)) = Some 0)"
proof (intro conjI impI)
  assume h: "is_up key \<and> Cursor m = 0"
  from assms(1) have "0 < length (Files m)" by simp
  with h show "cursor_after (Update env (KeyMsg key) (m, calls)) = Some (int (length (Files m)) - 1)"
    by (simp add: Update_up assms(2) cursor_after_def Let_def Cursor_fixViewport_False fixCursor_def)
next
  assume h: "is_down key \<and> Cursor m = int (length (Files m)) - 1"
  then show "cursor_after (Update env (KeyMsg key) (m, calls)) = Some 0"
    by (simp add: Update_down assms(2) cursor_after_def Let_def Cursor_fixViewport_False fixCursor_def)
qed

text \<open>
  The scenario of the specification: in \<^verbatim>\<open>[a.txt, b/, c.txt]\<close>, up from index 0 gives
  index 2, and down from index 2 gives index 0.
\<close>

theorem navigation_is_circular_witness:
  "Files (createInitialModel\<lparr>Files := abc\<rparr>) \<noteq> [] \<and>
   \<not> Focused (TextInput (createInitialModel\<lparr>Files := abc\<rparr>)) \<and>
   is_up KeyUp \<and> is_down KeyDown \<and>
   cursor_after (Update (env_of abc) (KeyMsg KeyUp) (createInitialModel\<lparr>Files := abc\<rparr>, []))
     = Some 2 \<and>
   cursor_after (Update (env_of abc) (KeyMsg KeyDown)
                   (createInitialModel\<lparr>Files := abc, Cursor := 2\<rparr>, []))
     = Some 0"
proof -
  let ?m = "createInitialModel\<lparr>Files := abc\<rparr>"
  have ne: "Files ?m \<noteq> []" "Files (?m\<lparr>Cursor := 2\<rparr>) \<noteq> []"
    by (simp_all add: abc_def)
  have nf: "\<not> Focused (TextInput ?m)" "\<not> Focused (TextInput (?m\<lparr>Cursor := 2\<rparr>))"
    by (simp_all add: createInitialModel_def textinput_NewModel_def Focused_def)
  have keys: "is_up KeyUp" "is_down KeyDown"
    by (simp_all add: is_up_def is_down_def)
  have c0: "Cursor ?m = 0" by (simp add: createInitialModel_def)
  have c2: "Cursor (?m\<lparr>Cursor := 2\<rparr>) = int (length (Files (?m\<lparr>Cursor := 2\<rparr>))) - 1"
    by (simp add: abc_def)
  have len: "int (length (Files ?m)) - 1 = 2" by (simp add: abc_def)
  from navigation_is_circular [OF ne(1) nf(1), of KeyUp "env_of abc" "[]"] keys c0 len
  have up: "cursor_after (Update (env_of abc) (KeyMsg KeyUp) (?m, [])) = Some 2"
    by simp
  from navigation_is_circular [OF ne(2) nf(2), of KeyDown "env_of abc" "[]"] keys c2
  have down: "cursor_after (Update (env_of abc) (KeyMsg KeyDown) (?m\<lparr>Cursor := 2\<rparr>, [])) = Some 0"
    by simp
  from ne nf keys up down show ?thesis by simp
qed

text \<open>
  Claim C3. When the listing is empty, the cursor is 0 and every read that depends on
  the cursor is guarded, so that no access is out of bounds.

  The enter case indexes \<^verbatim>\<open>m.Files[m.Cursor]\<close> before anything else and without a
  guard. Started on an empty directory (listing empty, cursor 0, input not focused),
  the program panics on the enter key. The up key leaves the cursor at -1, since
  \<^verbatim>\<open>fixCursor\<close> sets it to \<^verbatim>\<open>len(m.Files) - 1\<close>, and enter then panics on index -1.
\<close>

theorem enter_on_empty_listing_panics:
  "map_option (\<lambda>m. (Files m, Cursor m, Focused (TextInput m)))
     (model_at_end (run (env_of []) [] (main_model (env_of []) ''.'')))
   = Some ([], 0, False) \<and>
   run (env_of []) [KeyMsg KeyEnter] (main_model (env_of []) ''.'') = Inl (IndexOutOfRange 0 0) \<and>
   map_option Cursor (model_at_end (run (env_of []) [KeyMsg KeyUp] (main_model (env_of []) ''.'')))
   = Some (- 1) \<and>
   run (env_of []) [KeyMsg KeyUp, KeyMsg KeyEnter] (main_model (env_of []) ''.'')
   = Inl (IndexOutOfRange (- 1) 0)"
  by code_simp

text \<open>
  Claim C4. For every model in delete-confirm mode, a commit with a buffer other than
  \<^verbatim>\<open>y\<close> never invokes the delete job and always issues a plain listing of the current
  directory.

  No deletion is ever made without \<^verbatim>\<open>y\<close> (\<open>delete_confirm_commit\<close> above), but the
  listing is not always issued: the enter case indexes the listing first, and the
  delete key enters the mode whether or not the cursor is on an entry. Started on an
  empty directory, the key \<^verbatim>\<open>d\<close> gives delete-confirm mode with the buffer \<^verbatim>\<open>d\<close>, and
  the commit panics instead of listing.
\<close>

theorem delete_confirm_commit_panics_without_entry:
  "map_option (\<lambda>m. (Files m, Cursor m, mode_of m, Focused (TextInput m), Value (TextInput m)))
     (model_at_end (run (env_of []) [KeyMsg (KeyRunes ''d'')] (main_model (env_of []) ''.'')))
   = Some ([], 0, DeleteConfirm, True, ''d'') \<and>
   run (env_of []) [KeyMsg (KeyRunes ''d''), KeyMsg KeyEnter] (main_model (env_of []) ''.'')
   = Inl (IndexOutOfRange 0 0)"
  by code_simp

text \<open>
  Claim C5, as amended. Processing the listing message \<^verbatim>\<open>fileStatus\<close> replaces the
  listing and changes nothing else: the cursor and the viewport offset keep the values
  they had, and no command is returned.
\<close>

theorem listing_message_only_replaces_listing:
  "Update env (fileStatus files) (m, calls) = Inr ((m\<lparr>Files := files\<rparr>, calls), CmdNil)"
  by (simp add: Update_def is_quit_def on_msg_def)

text \<open>
  Claim C5 as stated (cursor and viewport offset are reset to 0) fails: with the cursor
  moved down to index 2, a listing message with a single entry leaves the cursor at 2;
  and on a model with the cursor at 2 and the viewport at offset 1, it leaves both.
\<close>

theorem listing_message_does_not_reset_cursor:
  "map_option (\<lambda>m. (Files m, Cursor m))
     (model_at_end (run (env_of abc) [WindowSizeMsg 80 10, KeyMsg KeyDown, KeyMsg KeyDown]
                      (main_model (env_of abc) ''.'')))
   = Some (abc, 2) \<and>
   map_option (\<lambda>m. (Files m, Cursor m))
     (model_at_end (run (env_of abc)
                      [WindowSizeMsg 80 10, KeyMsg KeyDown, KeyMsg KeyDown, fileStatus [a_file ''z'']]
                      (main_model (env_of abc) ''.'')))
   = Some ([a_file ''z''], 2) \<and>
   map_option (\<lambda>m. (Files m, Cursor m, YOffset (Viewport m)))
     (model_after (Update (env_of abc) (fileStatus [a_file ''z''])
        (browsing\<lparr>Cursor := 2, Viewport := viewport_zero\<lparr>Width := 80, Height := 2, YOffset := 1\<rparr>\<rparr>,
         [])))
   = Some ([a_file ''z''], 2, 1)"
  by code_simp




text \<open>
  Claim C7, as amended. From Help mode the escape key returns the model to Browse
  mode. After any other key event, whenever \<^verbatim>\<open>Update\<close> returns a model, help is still
  shown.
\<close>

theorem help_is_left_by_esc:
  assumes "ShowHelp m"
  shows
    "(KeyMsg_String key = ''esc'' \<longrightarrow>
        (\<exists>m1. Update env (KeyMsg key) (m, calls) = Inr ((m1, calls), Batch [TextInputCmd]) \<and>
           mode_of m1 = Browse)) \<and>
     (KeyMsg_String key \<noteq> ''esc'' \<longrightarrow>
        (\<forall>m1. model_after (Update env (KeyMsg key) (m, calls)) = Some m1 \<longrightarrow> ShowHelp m1))"
proof (intro conjI impI allI)
  assume "KeyMsg_String key = ''esc''"
  then show "\<exists>m1. Update env (KeyMsg key) (m, calls) = Inr ((m1, calls), Batch [TextInputCmd]) \<and>
           mode_of m1 = Browse"
    by (simp add: cancel_prompt mode_of_def)
next
  fix m1
  assume ne: "KeyMsg_String key \<noteq> ''esc''"
    and "model_after (Update env (KeyMsg key) (m, calls)) = Some m1"
  then obtain calls1 cmd where u: "Update env (KeyMsg key) (m, calls) = Inr ((m1, calls1), cmd)"
    using model_after_Some by blast
  have fl: "flow_holds ShowHelp (on_msg env (KeyMsg key) (m, calls))"
    using on_key_ShowHelp [OF assms ne] by (simp add: on_msg_def)
  show "ShowHelp m1"
    by (rule Update_holds [where P = ShowHelp, OF fl _ _ u]) (simp_all add: assms)
qed

text \<open>With help shown over the starting model: the escape key, and the down key.\<close>

theorem help_is_left_by_esc_witness:
  "ShowHelp (browsing\<lparr>ShowHelp := True\<rparr>) \<and> KeyMsg_String KeyEsc = ''esc'' \<and>
   (\<exists>m1. Update (env_of abc) (KeyMsg KeyEsc) (browsing\<lparr>ShowHelp := True\<rparr>, [])
            = Inr ((m1, []), Batch [TextInputCmd]) \<and> mode_of m1 = Browse) \<and>
   KeyMsg_String KeyDown \<noteq> ''esc'' \<and>
   (\<exists>m1. model_after (Update (env_of abc) (KeyMsg KeyDown) (browsing\<lparr>ShowHelp := True\<rparr>, []))
            = Some m1 \<and> ShowHelp m1)"
proof -
  let ?m = "browsing\<lparr>ShowHelp := True\<rparr>"
  have h: "ShowHelp ?m" by simp
  have nf: "\<not> Focused (TextInput ?m)"
    by (simp add: browsing_def createInitialModel_def textinput_NewModel_def Focused_def)
  have "is_down KeyDown" by (simp add: is_down_def)
  from Update_down [OF this nf, of "env_of abc" "[]"]
  obtain m1 where m1: "model_after (Update (env_of abc) (KeyMsg KeyDown) (?m, [])) = Some m1"
    by (simp add: model_after_def)
  note t1 = help_is_left_by_esc [OF h, of KeyEsc "env_of abc" "[]"]
  note t2 = help_is_left_by_esc [OF h, of KeyDown "env_of abc" "[]"]
  from t2 m1 have "ShowHelp m1" by simp
  with m1 t1 h show ?thesis by auto
qed

text \<open>
  Claim C7 as stated (any key returns to Browse) fails: the help key gives Help mode,
  and after the down key the mode is still Help.
\<close>

theorem help_stays_on_other_keys:
  "map_option mode_of
     (model_at_end (run (env_of abc) [KeyMsg (KeyRunes ''i'')] (main_model (env_of abc) ''.'')))
   = Some HelpMode \<and>
   map_option mode_of
     (model_at_end (run (env_of abc) [KeyMsg (KeyRunes ''i''), KeyMsg KeyDown]
                      (main_model (env_of abc) ''.'')))
   = Some HelpMode"
  by code_simp

text \<open>
  Claim C8. While a prompt mode is active (the text input is focused), the up, down
  and scroll events do not change the cursor, and every key event other than the
  reserved cancel and commit keys is routed to the text input rather than interpreted
  as a command.

  The cursor is not changed, and the keys go to the text input
  (\<open>focused_keys_go_to_the_text_input\<close> above; the quit keys are checked before
  anything else in every mode). But the help case has no guard on the focus, unlike
  the cases of up, down, \<^verbatim>\<open>h\<close>, \<^verbatim>\<open>m\<close>, \<^verbatim>\<open>r\<close> and \<^verbatim>\<open>d\<close>. The program is started on three
  entries and the rename key pressed: the rename prompt is active, the input focused,
  help not shown, the viewport holding the rendered listing. The key \<^verbatim>\<open>i\<close> is then
  typed into the buffer and also run as the help command: help is shown and the
  content of the viewport is the help text.
\<close>

theorem help_key_is_a_command_in_a_prompt:
  "map_option (\<lambda>m. (Rename m, Focused (TextInput m), Value (TextInput m), ShowHelp m,
                     lines (Viewport m)))
     (model_at_end (run (env_of abc) [KeyMsg (KeyRunes ''r'')] (main_model (env_of abc) ''.'')))
   = Some (True, True, ''r'', False, [''a.txt'', ''b'', ''c.txt'', []]) \<and>
   map_option (\<lambda>m. (Rename m, Focused (TextInput m), Value (TextInput m), ShowHelp m,
                     lines (Viewport m)))
     (model_at_end (run (env_of abc) [KeyMsg (KeyRunes ''r''), KeyMsg (KeyRunes ''i'')]
                      (main_model (env_of abc) ''.'')))
   = Some (True, True, ''ri'', True, [''keys''])"
  by code_simp

text \<open>
  Claim C9, as amended. For every model, processing a window-size message leaves the
  cursor, the listing, the four mode flags and the text input unchanged, and replaces
  the viewport by a fresh one of the message's width and of its height less one, at
  offset 0 and without content. The scroll invariant is not re-established.
\<close>

theorem resize_keeps_cursor_and_mode:
  "\<exists>m1. Update env (WindowSizeMsg w h) (m, calls) = Inr ((m1, calls), Batch [TextInputCmd]) \<and>
         Cursor m1 = Cursor m \<and> Files m1 = Files m \<and>
         Move m1 = Move m \<and> Rename m1 = Rename m \<and> Delete m1 = Delete m \<and>
         ShowHelp m1 = ShowHelp m \<and> TextInput m1 = TextInput m \<and>
         Viewport m1 = \<lparr>Width = w, Height = h - 1, YOffset = 0, YPosition = 0, lines = []\<rparr>"
  by (simp add: Update_def is_quit_def on_msg_def viewport_zero_def textinput_Update_def)

text \<open>
  Claim C9 as stated (the scroll invariant is re-validated) fails: in a terminal of 10
  rows the cursor is moved to index 2, inside the band; the terminal is resized to 3
  rows, the viewport shows rows 0 and 1, and the cursor is still at 2.
\<close>

theorem resize_does_not_restore_band:
  "map_option (\<lambda>m. (Cursor m, YOffset (Viewport m), Height (Viewport m), in_band m))
     (model_at_end (run (env_of abc) [WindowSizeMsg 80 10, KeyMsg KeyDown, KeyMsg KeyDown]
                      (main_model (env_of abc) ''.'')))
   = Some (2, 0, 9, True) \<and>
   map_option (\<lambda>m. (Cursor m, YOffset (Viewport m), Height (Viewport m), in_band m))
     (model_at_end (run (env_of abc)
                      [WindowSizeMsg 80 10, KeyMsg KeyDown, KeyMsg KeyDown, WindowSizeMsg 80 3]
                      (main_model (env_of abc) ''.'')))
   = Some (2, 0, 2, False)"
  by code_simp

text \<open>
  Claim C10. In every state that the program reaches from its initial model, at most
  one of the flags \<^verbatim>\<open>Move\<close>, \<^verbatim>\<open>Rename\<close> and \<^verbatim>\<open>Delete\<close> is set; and a flag is set only
  while the text input is focused, which is what keeps the mode keys from setting a
  second one. The initial model is the one \<^verbatim>\<open>main\<close> builds, for any start directory and
  any behaviour of the filesystem; the messages are arbitrary.
\<close>

theorem at_most_one_prompt_flag:
  assumes "run env msgs (main_model env d) = Inr (m, calls)"
  shows "prompt_flags m \<le> 1 \<and> (0 < prompt_flags m \<longrightarrow> Focused (TextInput m))"
  using run_inv [where s = "main_model env d" and env = env and msgs = msgs and ?s1.0 = "(m, calls)"]
    main_model_inv [of env d] assms
  by (auto simp: prompt_inv_def split: if_splits)

text \<open>The move key, then the rename key: only \<^verbatim>\<open>Move\<close> is set.\<close>

theorem at_most_one_prompt_flag_witness:
  "\<exists>m calls.
     run (env_of abc) [KeyMsg (KeyRunes ''m''), KeyMsg (KeyRunes ''r'')] (main_model (env_of abc) ''.'')
       = Inr (m, calls) \<and>
     Move m \<and> \<not> Rename m \<and> prompt_flags m \<le> 1 \<and> Focused (TextInput m)"
proof -
  let ?r = "run (env_of abc) [KeyMsg (KeyRunes ''m''), KeyMsg (KeyRunes ''r'')]
              (main_model (env_of abc) ''.'')"
  have "map_option (\<lambda>m. (Move m, Rename m)) (model_at_end ?r) = Some (True, False)"
    by code_simp
  then obtain m where "model_at_end ?r = Some m" and mv: "Move m" "\<not> Rename m"
    by auto
  then obtain calls where r: "?r = Inr (m, calls)"
    using model_at_end_Some by blast
  from at_most_one_prompt_flag [OF r] mv
  have "prompt_flags m \<le> 1 \<and> Focused (TextInput m)"
    by (simp add: prompt_flags_def)
  with r mv show ?thesis by blast
qed

end
